theory Spec2Isabelle
  imports Complex_Main "HOL-Library.Word"
begin

section \<open>The four-parameter correlation model of the CSM library\<close>

text \<open>
  A shallow embedding of \<^verbatim>\<open>FourParameterCorrelationModel.cpp\<close>. The class stores, for each
  sensor model parameter, the index of its correlation parameter group, and for each group
  the four parameters of the curve
  \<^verbatim>\<open>rho = a * (alpha + ((1 - alpha)*(1 + beta)/(beta + exp(deltaT / tau))))\<close>.

  Machine types are those of a 64-bit platform: \<^verbatim>\<open>size_t\<close> is a 64-bit word, \<^verbatim>\<open>int\<close> a
  32-bit word read in two's complement. A \<^verbatim>\<open>std::vector\<close> is a list; its \<^verbatim>\<open>size()\<close> is
  the length of the list, which fits \<^verbatim>\<open>size_t\<close> for every vector that exists.
\<close>

type_synonym size_t = "64 word"
type_synonym c_int = "32 word"

subsection \<open>Values of type double\<close>

text \<open>
  A \<^verbatim>\<open>double\<close> is a finite real, an infinity or a NaN. The special values follow IEEE 754:
  a comparison with a NaN is false, a finite value divided by zero is an infinity, and
  \<^verbatim>\<open>0/0\<close>, \<^verbatim>\<open>inf/inf\<close>, \<^verbatim>\<open>inf - inf\<close> and \<^verbatim>\<open>0 * inf\<close> are NaN. On finite values the
  arithmetic is that of the reals: rounding, overflow of a finite result and the sign of
  zero are not modelled (the zero is the positive one).
\<close>

datatype double = Finite real | PInf | NInf | NaN

fun dlt :: "double \<Rightarrow> double \<Rightarrow> bool" where
  "dlt NaN _ = False"
| "dlt _ NaN = False"
| "dlt (Finite x) (Finite y) = (x < y)"
| "dlt _ NInf = False"
| "dlt PInf _ = False"
| "dlt NInf _ = True"
| "dlt (Finite x) PInf = True"

definition dgt :: "double \<Rightarrow> double \<Rightarrow> bool" where
  "dgt x y = dlt y x"

fun dle :: "double \<Rightarrow> double \<Rightarrow> bool" where
  "dle NaN _ = False"
| "dle _ NaN = False"
| "dle (Finite x) (Finite y) = (x \<le> y)"
| "dle NInf _ = True"
| "dle _ PInf = True"
| "dle PInf _ = False"
| "dle (Finite x) NInf = False"

fun fabs :: "double \<Rightarrow> double" where
  "fabs (Finite x) = Finite \<bar>x\<bar>"
| "fabs PInf = PInf"
| "fabs NInf = PInf"
| "fabs NaN = NaN"

fun dneg :: "double \<Rightarrow> double" where
  "dneg (Finite x) = Finite (- x)"
| "dneg PInf = NInf"
| "dneg NInf = PInf"
| "dneg NaN = NaN"

fun dadd :: "double \<Rightarrow> double \<Rightarrow> double" where
  "dadd NaN _ = NaN"
| "dadd _ NaN = NaN"
| "dadd (Finite x) (Finite y) = Finite (x + y)"
| "dadd PInf NInf = NaN"
| "dadd NInf PInf = NaN"
| "dadd PInf _ = PInf"
| "dadd NInf _ = NInf"
| "dadd (Finite x) PInf = PInf"
| "dadd (Finite x) NInf = NInf"

definition dsub :: "double \<Rightarrow> double \<Rightarrow> double" where
  "dsub x y = dadd x (dneg y)"

text \<open>The infinity with the sign of a product or quotient whose magnitude is infinite:
  \<open>neg\<close> says that exactly one operand is negative.\<close>

definition inf_of_sign :: "bool \<Rightarrow> double" where
  "inf_of_sign neg = (if neg then NInf else PInf)"

fun dmul :: "double \<Rightarrow> double \<Rightarrow> double" where
  "dmul NaN _ = NaN"
| "dmul _ NaN = NaN"
| "dmul (Finite x) (Finite y) = Finite (x * y)"
| "dmul (Finite x) PInf = (if x = 0 then NaN else inf_of_sign (x < 0))"
| "dmul (Finite x) NInf = (if x = 0 then NaN else inf_of_sign (0 < x))"
| "dmul PInf (Finite y) = (if y = 0 then NaN else inf_of_sign (y < 0))"
| "dmul NInf (Finite y) = (if y = 0 then NaN else inf_of_sign (0 < y))"
| "dmul PInf PInf = PInf"
| "dmul PInf NInf = NInf"
| "dmul NInf PInf = NInf"
| "dmul NInf NInf = PInf"

fun ddiv :: "double \<Rightarrow> double \<Rightarrow> double" where
  "ddiv NaN _ = NaN"
| "ddiv _ NaN = NaN"
| "ddiv (Finite x) (Finite y) =
     (if y = 0 then (if x = 0 then NaN else inf_of_sign (x < 0)) else Finite (x / y))"
| "ddiv (Finite x) PInf = Finite 0"
| "ddiv (Finite x) NInf = Finite 0"
| "ddiv PInf (Finite y) = inf_of_sign (y < 0)"
| "ddiv NInf (Finite y) = inf_of_sign (0 \<le> y)"
| "ddiv PInf PInf = NaN"
| "ddiv PInf NInf = NaN"
| "ddiv NInf PInf = NaN"
| "ddiv NInf NInf = NaN"

fun dexp :: "double \<Rightarrow> double" where
  "dexp (Finite x) = Finite (exp x)"
| "dexp PInf = PInf"
| "dexp NInf = Finite 0"
| "dexp NaN = NaN"

subsection \<open>Errors\<close>

text \<open>The exception class \<^verbatim>\<open>csm::Error\<close> (declared in \<^verbatim>\<open>Error.h\<close>) carries an error type,
  a message and the name of the function that raised it. Only the two error types that
  this file throws are listed.\<close>

datatype ErrorType = BOUNDS | INDEX_OUT_OF_RANGE

datatype Error = Error (getError: ErrorType) (getMessage: string) (getFunction: string)

subsection \<open>The data of the class\<close>

record Parameters =
  a :: double
  alpha :: double
  beta :: double
  tau :: double

text \<open>Modelled from the spec: the constructors of \<^verbatim>\<open>Parameters\<close>, declared in
  \<^verbatim>\<open>FourParameterCorrelationModel.h\<close>, which is not among the sources. The spec says that a
  default-constructed instance is all zeros; the four-argument constructor stores its
  arguments in the fields.\<close>

definition Parameters_default :: Parameters where
  "Parameters_default = \<lparr>a = Finite 0, alpha = Finite 0, beta = Finite 0, tau = Finite 0\<rparr>"

definition Parameters_of :: "double \<Rightarrow> double \<Rightarrow> double \<Rightarrow> double \<Rightarrow> Parameters" where
  "Parameters_of a0 alpha0 beta0 tau0 = \<lparr>a = a0, alpha = alpha0, beta = beta0, tau = tau0\<rparr>"

record model =
  theGroupMapping :: "c_int list"
  theCorrParams :: "Parameters list"
  theFormat :: string

subsection \<open>Methods that throw and methods that assign\<close>

text \<open>
  A \<^verbatim>\<open>const\<close> method is a function of the object that returns an error or a value. A
  method that assigns takes the object and returns its result together with the object
  as the method leaves it, also when it leaves by a \<^verbatim>\<open>throw\<close>: the object after an
  exception is the object at the point of the \<^verbatim>\<open>throw\<close>.
\<close>

type_synonym 'r member_fn = "model \<Rightarrow> (Error + 'r) \<times> model"

definition throw :: "Error \<Rightarrow> 'r member_fn" where
  "throw e s = (Inl e, s)"

definition skip :: "unit member_fn" where
  "skip s = (Inr (), s)"

definition call_const :: "(model \<Rightarrow> Error + 'r) \<Rightarrow> 'r member_fn" where
  "call_const f s = (f s, s)"

definition assign :: "(model \<Rightarrow> model) \<Rightarrow> unit member_fn" where
  "assign f s = (Inr (), f s)"

definition seq :: "unit member_fn \<Rightarrow> 'r member_fn \<Rightarrow> 'r member_fn" where
  "seq p q s = (case p s of (Inl e, s') \<Rightarrow> (Inl e, s') | (Inr _, s') \<Rightarrow> q s')"

subsection \<open>The methods\<close>

text \<open>The constructor builds both vectors with \<^verbatim>\<open>numSMParams\<close> elements. That the
  allocation can fail is not modelled.\<close>

definition FourParameterCorrelationModel :: "size_t \<Rightarrow> size_t \<Rightarrow> model" where
  "FourParameterCorrelationModel numSMParams numCPGroups =
     \<lparr>theGroupMapping = replicate (unat numSMParams) (- 1),
      theCorrParams = replicate (unat numSMParams) Parameters_default,
      theFormat = ''Four-parameter model (A, alpha, beta, tau)''\<rparr>"

definition getNumSensorModelParameters :: "model \<Rightarrow> size_t" where
  "getNumSensorModelParameters m = of_nat (length (theGroupMapping m))"

definition getNumCorrelationParameterGroups :: "model \<Rightarrow> size_t" where
  "getNumCorrelationParameterGroups m = of_nat (length (theCorrParams m))"

definition checkSensorModelParameterIndex :: "model \<Rightarrow> size_t \<Rightarrow> string \<Rightarrow> Error + unit" where
  "checkSensorModelParameterIndex m smParamIndex functionName =
     (if unat smParamIndex \<ge> length (theGroupMapping m)
      then Inl (Error INDEX_OUT_OF_RANGE
                  ''Sensor model parameter index is out of range.''
                  (''csm::FourParameterCorrelationModel::'' @ functionName))
      else Inr ())"

definition checkParameterGroupIndex :: "model \<Rightarrow> size_t \<Rightarrow> string \<Rightarrow> Error + unit" where
  "checkParameterGroupIndex m groupIndex functionName =
     (if unat groupIndex \<ge> length (theCorrParams m)
      then Inl (Error INDEX_OUT_OF_RANGE
                  ''Correlation parameter group index is out of range.''
                  (''csm::FourParameterCorrelationModel::'' @ functionName))
      else Inr ())"

definition getCorrelationParameterGroup :: "model \<Rightarrow> size_t \<Rightarrow> Error + c_int" where
  "getCorrelationParameterGroup m smParamIndex =
     (case checkSensorModelParameterIndex m smParamIndex ''getCorrelationParameterGroup'' of
        Inl e \<Rightarrow> Inl e
      | Inr _ \<Rightarrow> Inr (theGroupMapping m ! unat smParamIndex))"

text \<open>The assignment \<^verbatim>\<open>theGroupMapping[smParamIndex] = cpGroupIndex\<close> converts a
  \<^verbatim>\<open>size_t\<close> to an \<^verbatim>\<open>int\<close>: the low 32 bits are kept.\<close>

definition setCorrelationParameterGroup :: "size_t \<Rightarrow> size_t \<Rightarrow> unit member_fn" where
  "setCorrelationParameterGroup smParamIndex cpGroupIndex =
     seq (call_const (\<lambda>m. checkSensorModelParameterIndex m smParamIndex
                             ''setCorrelationParameterGroup''))
    (seq (call_const (\<lambda>m. checkParameterGroupIndex m cpGroupIndex
                             ''setCorrelationParameterGroup''))
         (assign (\<lambda>m. m\<lparr>theGroupMapping :=
                          (theGroupMapping m)[unat smParamIndex := ucast cpGroupIndex]\<rparr>)))"

definition MODULE :: string where
  "MODULE = ''csm::FourParameterCorrelationModel::setCorrelationGroupParameters''"

definition setCorrelationGroupParameters :: "size_t \<Rightarrow> Parameters \<Rightarrow> unit member_fn" where
  "setCorrelationGroupParameters cpGroupIndex params =
     seq (call_const (\<lambda>m. checkParameterGroupIndex m cpGroupIndex
                             ''setCorrelationGroupParameters''))
    (seq (if dlt (a params) (Finite 0) \<or> dgt (a params) (Finite 1)
          then throw (Error BOUNDS
                        ''Correlation parameter A must be in the range [-1, 1].'' MODULE)
          else skip)
    (seq (if dlt (alpha params) (Finite 0) \<or> dgt (alpha params) (Finite 1)
          then throw (Error BOUNDS
                        ''Correlation parameter alpha must be in the range [0, 1].'' MODULE)
          else skip)
    (seq (if dlt (beta params) (Finite 0) \<or> dgt (beta params) (Finite 10)
          then throw (Error BOUNDS
                        ''Correlation parameter beta must be non-negative.'' MODULE)
          else skip)
    (seq (if dle (tau params) (Finite 0)
          then throw (Error BOUNDS
                        ''Correlation parameter tau must be positive.'' MODULE)
          else skip)
         (assign (\<lambda>m. m\<lparr>theCorrParams :=
                          (theCorrParams m)[unat cpGroupIndex := params]\<rparr>))))))"

text \<open>The overload that takes the four values builds a \<^verbatim>\<open>Parameters\<close> and calls the
  other one.\<close>

definition setCorrelationGroupParameters_values ::
  "size_t \<Rightarrow> double \<Rightarrow> double \<Rightarrow> double \<Rightarrow> double \<Rightarrow> unit member_fn" where
  "setCorrelationGroupParameters_values cpGroupIndex a0 alpha0 beta0 tau0 =
     setCorrelationGroupParameters cpGroupIndex (Parameters_of a0 alpha0 beta0 tau0)"

definition getCorrelationCoefficient :: "model \<Rightarrow> size_t \<Rightarrow> double \<Rightarrow> Error + double" where
  "getCorrelationCoefficient m cpGroupIndex deltaTime =
     (case checkParameterGroupIndex m cpGroupIndex ''getCorrelationCoefficient'' of
        Inl e \<Rightarrow> Inl e
      | Inr _ \<Rightarrow>
          (let cp = theCorrParams m ! unat cpGroupIndex;
               corrCoeff =
                 dmul (a cp)
                   (dadd (alpha cp)
                      (ddiv (dmul (dsub (Finite 1) (alpha cp)) (dadd (Finite 1) (beta cp)))
                            (dadd (beta cp) (dexp (ddiv (fabs deltaTime) (tau cp))))))
           in Inr (if dlt corrCoeff (Finite (- 1)) then Finite (- 1)
                   else if dgt corrCoeff (Finite 1) then Finite 1
                   else corrCoeff)))"

definition getCorrelationGroupParameters :: "model \<Rightarrow> size_t \<Rightarrow> Error + Parameters" where
  "getCorrelationGroupParameters m cpGroupIndex =
     (case checkParameterGroupIndex m cpGroupIndex ''getCorrelationGroupParameters'' of
        Inl e \<Rightarrow> Inl e
      | Inr _ \<Rightarrow> Inr (theCorrParams m ! unat cpGroupIndex))"

subsection \<open>Notions used to state the properties\<close>

text \<open>\<open>raises t r\<close>: the result \<open>r\<close> is an exception whose error type is \<open>t\<close>.\<close>

definition raises :: "ErrorType \<Rightarrow> Error + 'r \<Rightarrow> bool" where
  "raises t r = (case r of Inl e \<Rightarrow> getError e = t | Inr _ \<Rightarrow> False)"

text \<open>The sizes of the two vectors are values of \<^verbatim>\<open>size_t\<close>, as those of every
  \<^verbatim>\<open>std::vector\<close> are.\<close>

definition sizes_fit :: "model \<Rightarrow> bool" where
  "sizes_fit m \<longleftrightarrow>
     length (theGroupMapping m) < 2 ^ 64 \<and> length (theCorrParams m) < 2 ^ 64"

text \<open>The curve as the specification writes it, on real numbers, and the clamp into
  \<open>[-1, 1]\<close>. The method \<open>getCorrelationCoefficient\<close> above is compared with them.\<close>

definition curve :: "real \<Rightarrow> real \<Rightarrow> real \<Rightarrow> real \<Rightarrow> real \<Rightarrow> real" where
  "curve av al be ta t = av * (al + ((1 - al) * (1 + be) / (be + exp (\<bar>t\<bar> / ta))))"

definition clamp :: "real \<Rightarrow> real" where
  "clamp x = (if x < - 1 then - 1 else if x > 1 then 1 else x)"

text \<open>Every entry of the group mapping is the value \<open>-1\<close> or, read as a signed number,
  the index of a group.\<close>

definition mapping_ok :: "model \<Rightarrow> bool" where
  "mapping_ok m =
     list_all (\<lambda>x. x = - 1 \<or> (0 \<le> sint x \<and> sint x < int (length (theCorrParams m))))
       (theGroupMapping m)"

text \<open>The example of the specification: three sensor model parameters and two groups are
  asked for, the parameters are assigned to the groups 0, 0 and 1, and the curve parameters
  of group 0 are set to \<open>a = 0.8\<close>, \<open>alpha = 0.3\<close>, \<open>beta = 1.0\<close>, \<open>tau = 5.0\<close>.\<close>

definition spec_example :: "unit member_fn" where
  "spec_example =
     seq (setCorrelationParameterGroup 0 0)
    (seq (setCorrelationParameterGroup 1 0)
    (seq (setCorrelationParameterGroup 2 1)
         (setCorrelationGroupParameters_values 0
            (Finite 0.8) (Finite 0.3) (Finite 1) (Finite 5))))"

section \<open>The constructor\<close>

lemma construct_theGroupMapping:
  "theGroupMapping (FourParameterCorrelationModel n k) = replicate (unat n) (- 1)"
  by (simp add: FourParameterCorrelationModel_def)

lemma construct_theCorrParams:
  "theCorrParams (FourParameterCorrelationModel n k) = replicate (unat n) Parameters_default"
  by (simp add: FourParameterCorrelationModel_def)

lemma construct_sizes:
  "getNumSensorModelParameters (FourParameterCorrelationModel n k) = n"
  "getNumCorrelationParameterGroups (FourParameterCorrelationModel n k) = n"
  by (simp_all add: getNumSensorModelParameters_def getNumCorrelationParameterGroups_def
      construct_theGroupMapping construct_theCorrParams)

text \<open>
  Claim C1. The claim is that, for all counts \<open>n\<close> and \<open>m\<close>, the model constructed with
  \<open>(n, m)\<close> has \<open>n\<close> sensor model parameters and \<open>m\<close> correlation parameter groups. The
  constructor sizes both vectors with its first argument and never reads the second:
  constructed with 3 parameters and 2 groups, the model reports 3 parameters and 3 groups.
\<close>

theorem C1_constructor_group_count:
  "getNumSensorModelParameters (FourParameterCorrelationModel 3 2) = 3 \<and>
   getNumCorrelationParameterGroups (FourParameterCorrelationModel 3 2) = 3 \<and>
   getNumCorrelationParameterGroups (FourParameterCorrelationModel 3 2) \<noteq> 2"
  by (simp add: construct_sizes)

lemma construct_sizes_fit: "sizes_fit (FourParameterCorrelationModel n k)"
proof -
  have "unat n < 2 ^ 64"
    using unsigned_less [of n, where ?'a = nat] by simp
  then show ?thesis
    by (simp add: sizes_fit_def construct_theGroupMapping construct_theCorrParams)
qed

section \<open>What the assigning methods return\<close>

lemma raises_simps [simp]:
  "raises t (Inl e) = (getError e = t)"
  "raises t (Inr v) = False"
  by (simp_all add: raises_def)

lemma setCorrelationParameterGroup_run:
  "setCorrelationParameterGroup p g m =
     (if length (theGroupMapping m) \<le> unat p
      then (Inl (Error INDEX_OUT_OF_RANGE ''Sensor model parameter index is out of range.''
                  ''csm::FourParameterCorrelationModel::setCorrelationParameterGroup''), m)
      else if length (theCorrParams m) \<le> unat g
      then (Inl (Error INDEX_OUT_OF_RANGE ''Correlation parameter group index is out of range.''
                  ''csm::FourParameterCorrelationModel::setCorrelationParameterGroup''), m)
      else (Inr (), m\<lparr>theGroupMapping := (theGroupMapping m)[unat p := ucast g]\<rparr>))"
  by (simp add: setCorrelationParameterGroup_def seq_def call_const_def assign_def
      checkSensorModelParameterIndex_def checkParameterGroupIndex_def)

lemma setCorrelationGroupParameters_run:
  "setCorrelationGroupParameters g ps m =
     (if length (theCorrParams m) \<le> unat g
      then (Inl (Error INDEX_OUT_OF_RANGE ''Correlation parameter group index is out of range.''
                  ''csm::FourParameterCorrelationModel::setCorrelationGroupParameters''), m)
      else if dlt (a ps) (Finite 0) \<or> dgt (a ps) (Finite 1)
      then (Inl (Error BOUNDS ''Correlation parameter A must be in the range [-1, 1].''
                  MODULE), m)
      else if dlt (alpha ps) (Finite 0) \<or> dgt (alpha ps) (Finite 1)
      then (Inl (Error BOUNDS ''Correlation parameter alpha must be in the range [0, 1].''
                  MODULE), m)
      else if dlt (beta ps) (Finite 0) \<or> dgt (beta ps) (Finite 10)
      then (Inl (Error BOUNDS ''Correlation parameter beta must be non-negative.'' MODULE), m)
      else if dle (tau ps) (Finite 0)
      then (Inl (Error BOUNDS ''Correlation parameter tau must be positive.'' MODULE), m)
      else (Inr (), m\<lparr>theCorrParams := (theCorrParams m)[unat g := ps]\<rparr>))"
  by (simp add: setCorrelationGroupParameters_def seq_def call_const_def assign_def throw_def
      skip_def checkParameterGroupIndex_def)

lemma size_le_index:
  "n < 2 ^ 64 \<Longrightarrow> (of_nat n :: size_t) \<le> i \<longleftrightarrow> n \<le> unat i"
  by (simp add: word_le_nat_alt unat_of_nat take_bit_nat_eq_self)

lemma sizes_fit_setGroup:
  "sizes_fit m \<Longrightarrow> sizes_fit (snd (setCorrelationParameterGroup p g m))"
  by (simp add: setCorrelationParameterGroup_run sizes_fit_def)

lemma sizes_fit_setParameters:
  "sizes_fit m \<Longrightarrow> sizes_fit (snd (setCorrelationGroupParameters g ps m))"
  by (simp add: setCorrelationGroupParameters_run sizes_fit_def)

section \<open>Validation of the curve parameters\<close>

text \<open>
  Claim C3. For a valid group index, setting the parameters of the group to the real
  values \<open>a\<close>, \<open>alpha\<close>, \<open>beta\<close>, \<open>tau\<close> fails with a bounds error exactly when
  \<open>a < 0\<close> or \<open>a > 1\<close>, or \<open>alpha < 0\<close> or \<open>alpha > 1\<close>, or \<open>beta < 0\<close> or \<open>beta > 10\<close>, or
  \<open>tau \<le> 0\<close>. The checks run in this order and the first violation decides the error
  that is thrown, so the values on the bounds are accepted.
\<close>

theorem C3_bounds_checked_in_order:
  assumes "g < getNumCorrelationParameterGroups m" and "sizes_fit m"
  shows "fst (setCorrelationGroupParameters_values g
                (Finite av) (Finite al) (Finite be) (Finite ta) m) =
     (if av < 0 \<or> av > 1
      then Inl (Error BOUNDS ''Correlation parameter A must be in the range [-1, 1].'' MODULE)
      else if al < 0 \<or> al > 1
      then Inl (Error BOUNDS ''Correlation parameter alpha must be in the range [0, 1].''
                  MODULE)
      else if be < 0 \<or> be > 10
      then Inl (Error BOUNDS ''Correlation parameter beta must be non-negative.'' MODULE)
      else if ta \<le> 0
      then Inl (Error BOUNDS ''Correlation parameter tau must be positive.'' MODULE)
      else Inr ())"
proof -
  from assms have "\<not> length (theCorrParams m) \<le> unat g"
    by (simp add: getNumCorrelationParameterGroups_def sizes_fit_def size_le_index
        not_le [symmetric])
  then show ?thesis
    by (simp add: setCorrelationGroupParameters_values_def setCorrelationGroupParameters_run
        Parameters_of_def dgt_def)
qed

theorem C3_bounds_witness:
  "(0 :: size_t) < getNumCorrelationParameterGroups (FourParameterCorrelationModel 2 2) \<and>
   sizes_fit (FourParameterCorrelationModel 2 2) \<and>
   fst (setCorrelationGroupParameters_values 0 (Finite 0) (Finite 0) (Finite 0) (Finite 1)
          (FourParameterCorrelationModel 2 2)) = Inr () \<and>
   fst (setCorrelationGroupParameters_values 0 (Finite 1) (Finite 1) (Finite 10) (Finite 1)
          (FourParameterCorrelationModel 2 2)) = Inr () \<and>
   fst (setCorrelationGroupParameters_values 0 (Finite (- 0.0001)) (Finite 2) (Finite 11)
          (Finite 0) (FourParameterCorrelationModel 2 2)) =
     Inl (Error BOUNDS ''Correlation parameter A must be in the range [-1, 1].'' MODULE) \<and>
   fst (setCorrelationGroupParameters_values 0 (Finite 1.0001) (Finite 0) (Finite 0)
          (Finite 1) (FourParameterCorrelationModel 2 2)) =
     Inl (Error BOUNDS ''Correlation parameter A must be in the range [-1, 1].'' MODULE) \<and>
   fst (setCorrelationGroupParameters_values 0 (Finite 1) (Finite (- 0.0001)) (Finite 11)
          (Finite 0) (FourParameterCorrelationModel 2 2)) =
     Inl (Error BOUNDS ''Correlation parameter alpha must be in the range [0, 1].'' MODULE) \<and>
   fst (setCorrelationGroupParameters_values 0 (Finite 1) (Finite 1) (Finite 10.0001)
          (Finite 0) (FourParameterCorrelationModel 2 2)) =
     Inl (Error BOUNDS ''Correlation parameter beta must be non-negative.'' MODULE) \<and>
   fst (setCorrelationGroupParameters_values 0 (Finite 1) (Finite 1) (Finite 10)
          (Finite 0) (FourParameterCorrelationModel 2 2)) =
     Inl (Error BOUNDS ''Correlation parameter tau must be positive.'' MODULE) \<and>
   fst (setCorrelationGroupParameters_values 0 (Finite 1) (Finite 1) (Finite 10)
          (Finite (- 1)) (FourParameterCorrelationModel 2 2)) =
     Inl (Error BOUNDS ''Correlation parameter tau must be positive.'' MODULE)"
proof -
  let ?m = "FourParameterCorrelationModel 2 2"
  have g: "(0 :: size_t) < getNumCorrelationParameterGroups ?m"
    by (simp add: construct_sizes)
  have s: "sizes_fit ?m"
    by (rule construct_sizes_fit)
  note run = C3_bounds_checked_in_order [OF g s]
  show ?thesis
    using g s run [of 0 0 0 1] run [of 1 1 10 1] run [of "- 0.0001" 2 11 0]
      run [of "1.0001" 0 0 1] run [of 1 "- 0.0001" 11 0] run [of 1 1 "10.0001" 0]
      run [of 1 1 10 0] run [of 1 1 10 "- 1"]
    by simp
qed

text \<open>
  Claim C4. When setting the parameters of a group fails, with either kind of error, the
  object is what it was before the call, and reading the parameters of that group gives
  the same result as before. When it succeeds, the object differs from the one before
  the call in the stored parameters of that group only, which are the four new values.
\<close>

theorem C4_failed_set_leaves_object:
  "(\<forall>e. fst (setCorrelationGroupParameters_values g a0 al0 be0 ta0 m) = Inl e \<longrightarrow>
      snd (setCorrelationGroupParameters_values g a0 al0 be0 ta0 m) = m \<and>
      getCorrelationGroupParameters
        (snd (setCorrelationGroupParameters_values g a0 al0 be0 ta0 m)) g
        = getCorrelationGroupParameters m g) \<and>
   (fst (setCorrelationGroupParameters_values g a0 al0 be0 ta0 m) = Inr () \<longrightarrow>
      snd (setCorrelationGroupParameters_values g a0 al0 be0 ta0 m) =
        m\<lparr>theCorrParams := (theCorrParams m)[unat g := Parameters_of a0 al0 be0 ta0]\<rparr> \<and>
      getCorrelationGroupParameters
        (snd (setCorrelationGroupParameters_values g a0 al0 be0 ta0 m)) g
        = Inr (Parameters_of a0 al0 be0 ta0))"
  by (simp add: setCorrelationGroupParameters_values_def setCorrelationGroupParameters_run
      getCorrelationGroupParameters_def checkParameterGroupIndex_def)

theorem C4_failed_set_witness:
  "fst (setCorrelationGroupParameters_values 0 (Finite 2) (Finite 0) (Finite 0) (Finite 1)
          (FourParameterCorrelationModel 2 2)) =
     Inl (Error BOUNDS ''Correlation parameter A must be in the range [-1, 1].'' MODULE) \<and>
   snd (setCorrelationGroupParameters_values 0 (Finite 2) (Finite 0) (Finite 0) (Finite 1)
          (FourParameterCorrelationModel 2 2)) = FourParameterCorrelationModel 2 2 \<and>
   getCorrelationGroupParameters
     (snd (setCorrelationGroupParameters_values 0 (Finite 2) (Finite 0) (Finite 0) (Finite 1)
          (FourParameterCorrelationModel 2 2))) 0 =
     getCorrelationGroupParameters (FourParameterCorrelationModel 2 2) 0 \<and>
   fst (setCorrelationGroupParameters_values 0 (Finite 1) (Finite 0) (Finite 0) (Finite 1)
          (FourParameterCorrelationModel 2 2)) = Inr () \<and>
   getCorrelationGroupParameters
     (snd (setCorrelationGroupParameters_values 0 (Finite 1) (Finite 0) (Finite 0) (Finite 1)
          (FourParameterCorrelationModel 2 2))) 0 =
     Inr (Parameters_of (Finite 1) (Finite 0) (Finite 0) (Finite 1))"
proof -
  let ?m = "FourParameterCorrelationModel 2 2"
  have bad: "fst (setCorrelationGroupParameters_values 0 (Finite 2) (Finite 0) (Finite 0)
                    (Finite 1) ?m) =
     Inl (Error BOUNDS ''Correlation parameter A must be in the range [-1, 1].'' MODULE)"
    by (simp add: setCorrelationGroupParameters_values_def setCorrelationGroupParameters_run
        construct_theCorrParams Parameters_of_def dgt_def)
  have good: "fst (setCorrelationGroupParameters_values 0 (Finite 1) (Finite 0) (Finite 0)
                    (Finite 1) ?m) = Inr ()"
    by (simp add: setCorrelationGroupParameters_values_def setCorrelationGroupParameters_run
        construct_theCorrParams Parameters_of_def dgt_def)
  show ?thesis
    using bad good
      C4_failed_set_leaves_object [of 0 "Finite 2" "Finite 0" "Finite 0" "Finite 1" ?m]
      C4_failed_set_leaves_object [of 0 "Finite 1" "Finite 0" "Finite 0" "Finite 1" ?m]
    by blast
qed

section \<open>Symmetry in time\<close>

text \<open>
  Claim C6. The correlation coefficient of a group at the time difference \<open>-t\<close> is the
  one at \<open>t\<close>: the result depends on the absolute value of the time difference only.
\<close>

theorem C6_coefficient_symmetric:
  "getCorrelationCoefficient m g (Finite (- t)) = getCorrelationCoefficient m g (Finite t) \<and>
   getCorrelationCoefficient m g (Finite t) = getCorrelationCoefficient m g (Finite \<bar>t\<bar>)"
  by (simp add: getCorrelationCoefficient_def split: sum.splits)

section \<open>The group mapping\<close>

text \<open>
  Claim C8. In a model that has just been constructed, the group of every sensor model
  parameter is the value \<open>-1\<close>, which is negative and so no index of a group.
\<close>

theorem C8_fresh_model_unassigned:
  "p < getNumSensorModelParameters (FourParameterCorrelationModel n k) \<Longrightarrow>
   getCorrelationParameterGroup (FourParameterCorrelationModel n k) p = Inr (- 1) \<and>
   sint (- 1 :: c_int) < 0"
  by (simp add: construct_sizes getCorrelationParameterGroup_def
      checkSensorModelParameterIndex_def construct_theGroupMapping word_less_nat_alt)

theorem C8_fresh_model_witness:
  "(1 :: size_t) < getNumSensorModelParameters (FourParameterCorrelationModel 3 2) \<and>
   getCorrelationParameterGroup (FourParameterCorrelationModel 3 2) 1 = Inr (- 1) \<and>
   sint (- 1 :: c_int) < 0"
proof -
  have p: "(1 :: size_t) < getNumSensorModelParameters (FourParameterCorrelationModel 3 2)"
    by (simp add: construct_sizes)
  show ?thesis
    using p C8_fresh_model_unassigned [OF p] by simp
qed

text \<open>
  Claim C10. A successful assignment of a group to a sensor model parameter changes the
  entry of that parameter in the group mapping and nothing else: the other entries, the
  stored curve parameters, the format string and both sizes are as before.
\<close>

theorem C10_setGroup_frame:
  "fst (setCorrelationParameterGroup p g m) = Inr () \<Longrightarrow>
   theGroupMapping (snd (setCorrelationParameterGroup p g m)) =
     (theGroupMapping m)[unat p := ucast g] \<and>
   (\<forall>i. i \<noteq> unat p \<longrightarrow>
      theGroupMapping (snd (setCorrelationParameterGroup p g m)) ! i =
      theGroupMapping m ! i) \<and>
   theCorrParams (snd (setCorrelationParameterGroup p g m)) = theCorrParams m \<and>
   theFormat (snd (setCorrelationParameterGroup p g m)) = theFormat m \<and>
   getNumSensorModelParameters (snd (setCorrelationParameterGroup p g m)) =
     getNumSensorModelParameters m \<and>
   getNumCorrelationParameterGroups (snd (setCorrelationParameterGroup p g m)) =
     getNumCorrelationParameterGroups m"
  by (simp add: setCorrelationParameterGroup_run getNumSensorModelParameters_def
      getNumCorrelationParameterGroups_def split: if_splits)

theorem C10_setGroup_witness:
  "fst (setCorrelationParameterGroup 1 0 (FourParameterCorrelationModel 3 2)) = Inr () \<and>
   theGroupMapping (snd (setCorrelationParameterGroup 1 0 (FourParameterCorrelationModel 3 2)))
     = [- 1, 0, - 1] \<and>
   theCorrParams (snd (setCorrelationParameterGroup 1 0 (FourParameterCorrelationModel 3 2)))
     = theCorrParams (FourParameterCorrelationModel 3 2) \<and>
   getNumSensorModelParameters
     (snd (setCorrelationParameterGroup 1 0 (FourParameterCorrelationModel 3 2))) = 3 \<and>
   getNumCorrelationParameterGroups
     (snd (setCorrelationParameterGroup 1 0 (FourParameterCorrelationModel 3 2))) = 3"
proof -
  let ?m = "FourParameterCorrelationModel 3 2"
  have ok: "fst (setCorrelationParameterGroup 1 0 ?m) = Inr ()"
    by (simp add: setCorrelationParameterGroup_run construct_theGroupMapping
        construct_theCorrParams)
  have "unat (3 :: size_t) = Suc (Suc (Suc 0))"
    by simp
  then have "replicate (unat (3 :: size_t)) (- 1 :: c_int) = [- 1, - 1, - 1]"
    by (simp only: replicate.simps)
  then have l: "(theGroupMapping ?m)[unat (1 :: size_t) := ucast (0 :: size_t)] = [- 1, 0, - 1]"
    by (simp add: construct_theGroupMapping)
  show ?thesis
    using ok l C10_setGroup_frame [OF ok] by (simp add: construct_sizes)
qed

subsection \<open>The entries of the group mapping\<close>

text \<open>A group index below \<open>2\<^sup>3\<^sup>1\<close> is stored as itself.\<close>

lemma sint_ucast_small:
  fixes g :: size_t
  assumes "unat g < 2 ^ 31"
  shows "sint (ucast g :: c_int) = int (unat g)"
proof -
  have "sint (ucast g :: c_int) = signed_take_bit 31 (uint g)"
    by (simp add: signed_ucast_eq)
  also have "\<dots> = uint g"
  proof (rule signed_take_bit_int_eq_self)
    have "- (2 ^ 31) \<le> (0 :: int)" by simp
    also have "0 \<le> uint g" by simp
    finally show "- (2 ^ 31) \<le> uint g" .
    have "int (unat g) < int (2 ^ 31)"
      using assms by (simp only: of_nat_less_iff)
    then have "int (unat g) < 2 ^ 31"
      by (simp only: of_nat_power of_nat_numeral)
    then show "uint g < 2 ^ 31" by (simp only: uint_nat)
  qed
  finally show ?thesis by (simp only: uint_nat)
qed

lemma mapping_ok_construct: "mapping_ok (FourParameterCorrelationModel n k)"
  by (simp add: mapping_ok_def construct_theGroupMapping list_all_iff)

lemma list_all_update: "list_all P xs \<Longrightarrow> P y \<Longrightarrow> list_all P (xs[i := y])"
  by (induction xs arbitrary: i) (auto split: nat.splits)

lemma mapping_ok_setGroup:
  assumes ok: "mapping_ok m" and small: "length (theCorrParams m) \<le> 2 ^ 31"
  shows "mapping_ok (snd (setCorrelationParameterGroup p g m))"
proof (cases "fst (setCorrelationParameterGroup p g m)")
  case (Inl e)
  then show ?thesis using ok
    by (simp add: setCorrelationParameterGroup_run split: if_splits)
next
  case (Inr u)
  then have g: "unat g < length (theCorrParams m)"
    and m': "snd (setCorrelationParameterGroup p g m) =
             m\<lparr>theGroupMapping := (theGroupMapping m)[unat p := ucast g]\<rparr>"
    by (simp_all add: setCorrelationParameterGroup_run split: if_splits)
  have "unat g < 2 ^ 31"
    using g small by (rule order.strict_trans2)
  then have "sint (ucast g :: c_int) = int (unat g)"
    by (rule sint_ucast_small)
  moreover have "int (unat g) < int (length (theCorrParams m))"
    using g by (simp only: of_nat_less_iff)
  ultimately have "0 \<le> sint (ucast g :: c_int) \<and>
      sint (ucast g :: c_int) < int (length (theCorrParams m))"
    by (simp only: of_nat_0_le_iff simp_thms)
  with ok show ?thesis
    unfolding m' mapping_ok_def by (simp add: list_all_update)
qed

lemma mapping_ok_setParameters:
  assumes "mapping_ok m"
  shows "mapping_ok (snd (setCorrelationGroupParameters g ps m))"
  using assms by (simp add: setCorrelationGroupParameters_run mapping_ok_def)

lemma narrowing_breaks_mapping:
  assumes p: "unat p < length (theGroupMapping m)"
    and g: "unat g < length (theCorrParams m)"
    and neg: "sint (ucast g :: c_int) < - 1"
  shows "fst (setCorrelationParameterGroup p g m) = Inr () \<and>
     getCorrelationParameterGroup (snd (setCorrelationParameterGroup p g m)) p
           = Inr (ucast g) \<and>
     \<not> mapping_ok (snd (setCorrelationParameterGroup p g m))"
proof -
  define v :: c_int where "v = ucast g"
  have run: "setCorrelationParameterGroup p g m =
       (Inr (), m\<lparr>theGroupMapping := (theGroupMapping m)[unat p := v]\<rparr>)"
    using p g by (simp add: setCorrelationParameterGroup_run v_def)
  have "v \<noteq> - 1"
    using neg unfolding v_def [symmetric] by auto
  moreover have "\<not> 0 \<le> sint v"
    using neg unfolding v_def [symmetric] by simp
  moreover have "v \<in> set ((theGroupMapping m)[unat p := v])"
    using p by (rule set_update_memI)
  ultimately have "\<not> list_all (\<lambda>x. x = - 1 \<or>
         (0 \<le> sint x \<and> sint x < int (length (theCorrParams m))))
          ((theGroupMapping m)[unat p := v])"
    unfolding list_all_iff by blast
  then have "\<not> mapping_ok (snd (setCorrelationParameterGroup p g m))"
    unfolding run mapping_ok_def by simp
  moreover have "getCorrelationParameterGroup (snd (setCorrelationParameterGroup p g m)) p
      = Inr v"
    unfolding run using p
    by (simp add: getCorrelationParameterGroup_def checkSensorModelParameterIndex_def)
  ultimately show ?thesis
    unfolding v_def [symmetric] by (simp add: run)
qed

text \<open>
  Claim C9. The claim is that every operation keeps each entry of the group mapping equal
  to \<open>-1\<close> or to a valid group index. The constructor establishes this, and the method
  that sets the curve parameters keeps it. The method that assigns a group checks the group
  index against the number of groups and then stores it in an \<^verbatim>\<open>int\<close>: with more than
  \<open>2\<^sup>3\<^sup>1\<close> groups a valid index need not fit, and the entry stored for the valid index
  \<open>2\<^sup>3\<^sup>1\<close> is \<open>-2\<^sup>3\<^sup>1\<close>.
\<close>

theorem C9_counterexample:
  "mapping_ok (FourParameterCorrelationModel (2 ^ 31 + 1) 1) \<and>
   fst (setCorrelationParameterGroup 0 (2 ^ 31)
          (FourParameterCorrelationModel (2 ^ 31 + 1) 1)) = Inr () \<and>
   getCorrelationParameterGroup
     (snd (setCorrelationParameterGroup 0 (2 ^ 31)
            (FourParameterCorrelationModel (2 ^ 31 + 1) 1))) 0 = Inr (ucast (2 ^ 31 :: size_t)) \<and>
   sint (ucast (2 ^ 31 :: size_t) :: c_int) = - 2147483648 \<and>
   \<not> mapping_ok (snd (setCorrelationParameterGroup 0 (2 ^ 31)
                        (FourParameterCorrelationModel (2 ^ 31 + 1) 1)))"
proof -
  let ?m = "FourParameterCorrelationModel (2 ^ 31 + 1) 1"
  have v: "sint (ucast (2 ^ 31 :: size_t) :: c_int) = - 2147483648"
    by simp
  have n: "unat (2 ^ 31 + 1 :: size_t) = 2147483649" "unat (2 ^ 31 :: size_t) = 2147483648"
    by simp_all
  have p: "unat (0 :: size_t) < length (theGroupMapping ?m)"
    unfolding construct_theGroupMapping length_replicate n by simp
  have g: "unat (2 ^ 31 :: size_t) < length (theCorrParams ?m)"
    unfolding construct_theCorrParams length_replicate n by simp
  have neg: "sint (ucast (2 ^ 31 :: size_t) :: c_int) < - 1"
    unfolding v by simp
  show ?thesis
    using narrowing_breaks_mapping [OF p g neg] v mapping_ok_construct [of "2 ^ 31 + 1" 1]
    by blast
qed

text \<open>
  Claim C9, amended. With at most \<open>2\<^sup>3\<^sup>1\<close> groups, every operation keeps each entry of the
  group mapping equal to \<open>-1\<close> or to a valid group index: this holds after construction, and
  both assigning methods keep it, as they keep the two sizes.
\<close>

theorem C9_mapping_invariant:
  "mapping_ok (FourParameterCorrelationModel n k) \<and>
   (mapping_ok m \<and> sizes_fit m \<and> getNumCorrelationParameterGroups m \<le> 2 ^ 31 \<longrightarrow>
      mapping_ok (snd (setCorrelationParameterGroup p g m)) \<and>
      mapping_ok (snd (setCorrelationGroupParameters_values g' a0 al0 be0 ta0 m)) \<and>
      getNumCorrelationParameterGroups (snd (setCorrelationParameterGroup p g m)) =
        getNumCorrelationParameterGroups m \<and>
      getNumCorrelationParameterGroups
        (snd (setCorrelationGroupParameters_values g' a0 al0 be0 ta0 m)) =
        getNumCorrelationParameterGroups m)"
proof (intro conjI impI)
  show "mapping_ok (FourParameterCorrelationModel n k)"
    by (rule mapping_ok_construct)
next
  assume h: "mapping_ok m \<and> sizes_fit m \<and> getNumCorrelationParameterGroups m \<le> 2 ^ 31"
  from h have fit: "length (theCorrParams m) < 2 ^ 64"
    by (simp only: sizes_fit_def)
  have "unat (2 ^ 31 :: size_t) = 2 ^ 31"
    by simp
  with h have small: "length (theCorrParams m) \<le> 2 ^ 31"
    by (simp only: getNumCorrelationParameterGroups_def size_le_index [OF fit])
  from h small show "mapping_ok (snd (setCorrelationParameterGroup p g m))"
    by (simp only: mapping_ok_setGroup)
  from h show "mapping_ok (snd (setCorrelationGroupParameters_values g' a0 al0 be0 ta0 m))"
    by (simp only: setCorrelationGroupParameters_values_def mapping_ok_setParameters)
  show "getNumCorrelationParameterGroups (snd (setCorrelationParameterGroup p g m)) =
        getNumCorrelationParameterGroups m"
    by (simp add: setCorrelationParameterGroup_run getNumCorrelationParameterGroups_def)
  show "getNumCorrelationParameterGroups
        (snd (setCorrelationGroupParameters_values g' a0 al0 be0 ta0 m)) =
        getNumCorrelationParameterGroups m"
    by (simp add: setCorrelationGroupParameters_values_def setCorrelationGroupParameters_run
        getNumCorrelationParameterGroups_def)
qed

theorem C9_mapping_witness:
  "mapping_ok (FourParameterCorrelationModel 3 2) \<and>
   sizes_fit (FourParameterCorrelationModel 3 2) \<and>
   getNumCorrelationParameterGroups (FourParameterCorrelationModel 3 2) \<le> 2 ^ 31 \<and>
   mapping_ok (snd (setCorrelationParameterGroup 2 1 (FourParameterCorrelationModel 3 2))) \<and>
   mapping_ok (snd (setCorrelationGroupParameters_values 0
                      (Finite 0.8) (Finite 0.3) (Finite 1) (Finite 5)
                      (FourParameterCorrelationModel 3 2)))"
proof -
  let ?m = "FourParameterCorrelationModel 3 2"
  have h: "mapping_ok ?m \<and> sizes_fit ?m \<and> getNumCorrelationParameterGroups ?m \<le> 2 ^ 31"
    by (simp add: mapping_ok_construct construct_sizes_fit construct_sizes)
  show ?thesis
    using h C9_mapping_invariant [of 3 2 ?m 2 1 0 "Finite 0.8" "Finite 0.3" "Finite 1" "Finite 5"]
    by blast
qed

section \<open>The index checks\<close>

lemma last_index_below:
  fixes n :: size_t
  shows "0 < n \<Longrightarrow> \<not> n \<le> n - 1"
  by (metis word_less_nat_alt unat_minus_one word_le_nat_alt diff_less less_numeral_extra(1) not_le unat_gt_0 word_gt_0)

lemma index_checks:
  assumes "sizes_fit m"
  shows "raises INDEX_OUT_OF_RANGE (getCorrelationParameterGroup m p)
           \<longleftrightarrow> getNumSensorModelParameters m \<le> p"
    and "raises INDEX_OUT_OF_RANGE (fst (setCorrelationParameterGroup p g m))
           \<longleftrightarrow> getNumSensorModelParameters m \<le> p \<or> getNumCorrelationParameterGroups m \<le> g"
    and "raises INDEX_OUT_OF_RANGE (getCorrelationGroupParameters m g)
           \<longleftrightarrow> getNumCorrelationParameterGroups m \<le> g"
    and "raises INDEX_OUT_OF_RANGE
           (fst (setCorrelationGroupParameters_values g a0 al0 be0 ta0 m))
           \<longleftrightarrow> getNumCorrelationParameterGroups m \<le> g"
    and "raises INDEX_OUT_OF_RANGE (getCorrelationCoefficient m g t)
           \<longleftrightarrow> getNumCorrelationParameterGroups m \<le> g"
  using assms
  by (simp_all add: sizes_fit_def getNumSensorModelParameters_def
      getNumCorrelationParameterGroups_def size_le_index getCorrelationParameterGroup_def
      getCorrelationGroupParameters_def getCorrelationCoefficient_def
      checkSensorModelParameterIndex_def checkParameterGroupIndex_def
      setCorrelationParameterGroup_run setCorrelationGroupParameters_values_def
      setCorrelationGroupParameters_run Let_def)

text \<open>
  Claim C5. Each of the five methods that take an index throws an index-out-of-range error
  exactly when an index it is given is greater than or equal to the respective size: the
  number of sensor model parameters for a parameter index, the number of groups for a
  group index; the method that assigns a group checks both of its indices. So, when the
  sizes are not zero, no such error is thrown for the index \<open>size - 1\<close>.
\<close>

theorem C5_index_checks:
  assumes "sizes_fit m"
  shows
  "(raises INDEX_OUT_OF_RANGE (getCorrelationParameterGroup m p)
      \<longleftrightarrow> getNumSensorModelParameters m \<le> p) \<and>
   (raises INDEX_OUT_OF_RANGE (fst (setCorrelationParameterGroup p g m))
      \<longleftrightarrow> getNumSensorModelParameters m \<le> p \<or> getNumCorrelationParameterGroups m \<le> g) \<and>
   (raises INDEX_OUT_OF_RANGE (getCorrelationGroupParameters m g)
      \<longleftrightarrow> getNumCorrelationParameterGroups m \<le> g) \<and>
   (raises INDEX_OUT_OF_RANGE (fst (setCorrelationGroupParameters_values g a0 al0 be0 ta0 m))
      \<longleftrightarrow> getNumCorrelationParameterGroups m \<le> g) \<and>
   (raises INDEX_OUT_OF_RANGE (getCorrelationCoefficient m g t)
      \<longleftrightarrow> getNumCorrelationParameterGroups m \<le> g) \<and>
   (0 < getNumSensorModelParameters m \<longrightarrow>
      \<not> raises INDEX_OUT_OF_RANGE
          (getCorrelationParameterGroup m (getNumSensorModelParameters m - 1))) \<and>
   (0 < getNumSensorModelParameters m \<and> 0 < getNumCorrelationParameterGroups m \<longrightarrow>
      fst (setCorrelationParameterGroup (getNumSensorModelParameters m - 1)
             (getNumCorrelationParameterGroups m - 1) m) = Inr ()) \<and>
   (0 < getNumCorrelationParameterGroups m \<longrightarrow>
      \<not> raises INDEX_OUT_OF_RANGE
          (getCorrelationGroupParameters m (getNumCorrelationParameterGroups m - 1)) \<and>
      \<not> raises INDEX_OUT_OF_RANGE
          (fst (setCorrelationGroupParameters_values (getNumCorrelationParameterGroups m - 1)
                  a0 al0 be0 ta0 m)) \<and>
      \<not> raises INDEX_OUT_OF_RANGE
          (getCorrelationCoefficient m (getNumCorrelationParameterGroups m - 1) t))"
proof -
  note checks = index_checks [OF assms]
  have set_ok: "fst (setCorrelationParameterGroup p' g' m) = Inr ()"
    if "\<not> raises INDEX_OUT_OF_RANGE (fst (setCorrelationParameterGroup p' g' m))" for p' g'
    using that by (simp add: setCorrelationParameterGroup_run split: if_splits)
  show ?thesis
    by (intro conjI impI set_ok) (simp_all add: checks last_index_below)
qed

theorem C5_index_checks_witness:
  "sizes_fit (FourParameterCorrelationModel 3 2) \<and>
   raises INDEX_OUT_OF_RANGE (getCorrelationParameterGroup (FourParameterCorrelationModel 3 2) 3) \<and>
   \<not> raises INDEX_OUT_OF_RANGE
       (getCorrelationParameterGroup (FourParameterCorrelationModel 3 2) 2) \<and>
   raises INDEX_OUT_OF_RANGE
     (fst (setCorrelationParameterGroup 0 3 (FourParameterCorrelationModel 3 2))) \<and>
   raises INDEX_OUT_OF_RANGE
     (fst (setCorrelationParameterGroup 3 0 (FourParameterCorrelationModel 3 2))) \<and>
   fst (setCorrelationParameterGroup 2 2 (FourParameterCorrelationModel 3 2)) = Inr () \<and>
   raises INDEX_OUT_OF_RANGE
     (getCorrelationGroupParameters (FourParameterCorrelationModel 3 2) 3) \<and>
   \<not> raises INDEX_OUT_OF_RANGE
       (getCorrelationGroupParameters (FourParameterCorrelationModel 3 2) 2) \<and>
   raises INDEX_OUT_OF_RANGE
     (fst (setCorrelationGroupParameters_values 3 (Finite 1) (Finite 1) (Finite 1) (Finite 1)
            (FourParameterCorrelationModel 3 2))) \<and>
   \<not> raises INDEX_OUT_OF_RANGE
     (fst (setCorrelationGroupParameters_values 2 (Finite 1) (Finite 1) (Finite 1) (Finite 1)
            (FourParameterCorrelationModel 3 2))) \<and>
   raises INDEX_OUT_OF_RANGE
     (getCorrelationCoefficient (FourParameterCorrelationModel 3 2) 3 (Finite 1)) \<and>
   \<not> raises INDEX_OUT_OF_RANGE
     (getCorrelationCoefficient (FourParameterCorrelationModel 3 2) 2 (Finite 1))"
proof -
  let ?m = "FourParameterCorrelationModel 3 2"
  have s: "sizes_fit ?m"
    by (rule construct_sizes_fit)
  note c = C5_index_checks [OF s, of _ _ "Finite 1" "Finite 1" "Finite 1" "Finite 1" "Finite 1"]
  show ?thesis
    using s c [of 3 3] c [of 0 3] c [of 3 0] c [of 2 2]
    by (simp add: construct_sizes)
qed

section \<open>The correlation coefficient\<close>

text \<open>Bounds on \<open>e\<close>, from eight terms of the exponential series, give the value of the
  curve in the example of the specification to three decimal places.\<close>

lemma exp_1_lower: "(2.718 :: real) < exp 1"
proof -
  obtain t :: real where "exp 1 = (\<Sum>m<8. 1 ^ m / fact m) + exp t / fact 8 * 1 ^ 8"
    using Maclaurin_exp_le [of 1 8] by blast
  moreover have "0 < exp t / fact 8 * 1 ^ 8" by simp
  moreover have "(\<Sum>m<8. 1 ^ m / fact m) > (2.718 :: real)"
    by (simp add: lessThan_nat_numeral fact_numeral)
  ultimately show ?thesis by linarith
qed

lemma exp_1_upper: "exp 1 < (2.719 :: real)"
proof -
  obtain t :: real where t: "\<bar>t\<bar> \<le> \<bar>1\<bar>"
      and e: "exp 1 = (\<Sum>m<8. 1 ^ m / fact m) + exp t / fact 8 * 1 ^ 8"
    using Maclaurin_exp_le [of 1 8] by blast
  from t have "exp t \<le> exp 1" by simp
  also have "\<dots> \<le> 3" by (rule exp_le)
  finally have "exp t / fact 8 * 1 ^ 8 \<le> 3 / fact 8" by (simp add: divide_right_mono)
  moreover have "(\<Sum>m<8. 1 ^ m / fact m) + 3 / fact 8 < (2.719 :: real)"
    by (simp add: lessThan_nat_numeral fact_numeral)
  ultimately show ?thesis using e by linarith
qed

lemma curve_example: "0.541 < curve 0.8 0.3 1 5 5 \<and> curve 0.8 0.3 1 5 5 < 0.542"
proof -
  have c: "curve 0.8 0.3 1 5 5 = 0.8 * (0.3 + 1.4 / (1 + exp 1))"
    by (simp add: curve_def)
  have pos: "0 < 1 + exp (1::real)" by (simp add: add_pos_pos)
  have "1.4 / (1 + exp 1) < (0.3775 :: real)"
    using exp_1_lower pos by (simp add: pos_divide_less_eq)
  moreover have "(0.37625 :: real) < 1.4 / (1 + exp 1)"
    using exp_1_upper pos by (simp add: pos_less_divide_eq)
  ultimately show ?thesis unfolding c by simp
qed

text \<open>For parameters within the bounds that setting them enforces, the value of the curve
  lies between 0 and \<open>a\<close>: the clamp leaves it as it is.\<close>

lemma curve_range:
  assumes "0 \<le> av" "av \<le> 1" "0 \<le> al" "al \<le> 1" "0 \<le> be" "0 < ta"
  shows "0 \<le> curve av al be ta t \<and> curve av al be ta t \<le> av"
proof -
  define e where "e = exp (\<bar>t\<bar> / ta)"
  have e1: "1 \<le> e" using assms by (simp add: e_def)
  have d: "0 < be + e" using e1 assms by linarith
  have q0: "0 \<le> (1 + be) / (be + e)" using d assms by simp
  have q1: "(1 + be) / (be + e) \<le> 1" using d e1 by (simp add: pos_divide_le_eq)
  have r0: "0 \<le> (1 - al) * ((1 + be) / (be + e))"
    using q0 assms by (intro mult_nonneg_nonneg) simp_all
  have r1: "(1 - al) * ((1 + be) / (be + e)) \<le> 1 - al"
    using mult_left_le [of "(1 + be) / (be + e)" "1 - al"] q1 assms by simp
  have s: "0 \<le> al + (1 - al) * ((1 + be) / (be + e))" "al + (1 - al) * ((1 + be) / (be + e)) \<le> 1"
    using r0 r1 assms by linarith+
  have "curve av al be ta t = av * (al + (1 - al) * ((1 + be) / (be + e)))"
    by (simp add: curve_def e_def)
  then show ?thesis using s assms by (simp add: mult_left_le)
qed


text \<open>The method on finite stored parameters, where no division by zero occurs, and on
  the parameters of a group that has not been set.\<close>

lemma coefficient_finite:
  assumes g: "unat g < length (theCorrParams m)"
    and ps: "theCorrParams m ! unat g =
               Parameters_of (Finite av) (Finite al) (Finite be) (Finite ta)"
    and ta: "ta \<noteq> 0" and d: "be + exp (\<bar>t\<bar> / ta) \<noteq> 0"
  shows "getCorrelationCoefficient m g (Finite t) = Inr (Finite (clamp (curve av al be ta t)))"
  using g ta d
  by (simp add: getCorrelationCoefficient_def checkParameterGroupIndex_def ps Parameters_of_def
      dsub_def dgt_def clamp_def curve_def Let_def)






subsection \<open>The example of the specification\<close>

lemma spec_example_run:
  "spec_example (FourParameterCorrelationModel 3 2) =
     (Inr (), \<lparr>theGroupMapping = [0, 0, 1],
               theCorrParams = [Parameters_of (Finite 0.8) (Finite 0.3) (Finite 1) (Finite 5),
                                Parameters_default, Parameters_default],
               theFormat = ''Four-parameter model (A, alpha, beta, tau)''\<rparr>)"
proof -
  have "unat (3 :: size_t) = Suc (Suc (Suc 0))"
    by simp
  then have m: "FourParameterCorrelationModel 3 2 =
     \<lparr>theGroupMapping = [- 1, - 1, - 1],
      theCorrParams = [Parameters_default, Parameters_default, Parameters_default],
      theFormat = ''Four-parameter model (A, alpha, beta, tau)''\<rparr>"
    by (simp only: FourParameterCorrelationModel_def replicate.simps)
  have upd: "[x, y, z][2 := v] = [x, y, v]" for x y z v :: c_int
    by (simp add: numeral_2_eq_2)
  show ?thesis
    unfolding m
    by (simp add: spec_example_def seq_def setCorrelationParameterGroup_run
        setCorrelationGroupParameters_values_def setCorrelationGroupParameters_run
        Parameters_of_def dgt_def upd)
qed

lemma one_plus_exp_nonzero: "1 + exp (x :: real) \<noteq> 0"
  using exp_gt_zero [of x] by linarith

text \<open>
  Claim C7. The claim is that, after the steps of the example, the correlation coefficient
  of group 0 at the time difference 5 is the value of the curve there, about 0.729, the
  clamp not engaged. The method returns the value of the curve, unclamped, but that value
  is \<open>0.8 * (0.3 + 1.4 / (1 + e))\<close>, which differs from 0.729 by more than 0.18.
\<close>

theorem C7_counterexample:
  "getCorrelationCoefficient (snd (spec_example (FourParameterCorrelationModel 3 2))) 0 (Finite 5)
     = Inr (Finite (curve 0.8 0.3 1 5 5)) \<and>
   0.18 < \<bar>curve 0.8 0.3 1 5 5 - 0.729\<bar>"
proof -
  let ?m = "snd (spec_example (FourParameterCorrelationModel 3 2))"
  have "getCorrelationCoefficient ?m 0 (Finite 5) = Inr (Finite (clamp (curve 0.8 0.3 1 5 5)))"
    by (rule coefficient_finite) (simp_all add: spec_example_run one_plus_exp_nonzero)
  moreover have "clamp (curve 0.8 0.3 1 5 5) = curve 0.8 0.3 1 5 5"
    using curve_example by (simp add: clamp_def)
  ultimately show ?thesis
    using curve_example by simp
qed

text \<open>
  Claim C7, amended. After the steps of the example, which all succeed, the correlation
  coefficient of group 0 at the time difference 5 is the value of the curve there,
  unclamped, which lies between 0.541 and 0.542.
\<close>

theorem C7_example_value:
  "fst (spec_example (FourParameterCorrelationModel 3 2)) = Inr () \<and>
   getCorrelationCoefficient (snd (spec_example (FourParameterCorrelationModel 3 2))) 0 (Finite 5)
     = Inr (Finite (curve 0.8 0.3 1 5 5)) \<and>
   0.541 < curve 0.8 0.3 1 5 5 \<and> curve 0.8 0.3 1 5 5 < 0.542"
proof -
  let ?m = "snd (spec_example (FourParameterCorrelationModel 3 2))"
  have "getCorrelationCoefficient ?m 0 (Finite 5) = Inr (Finite (clamp (curve 0.8 0.3 1 5 5)))"
    by (rule coefficient_finite) (simp_all add: spec_example_run one_plus_exp_nonzero)
  moreover have "clamp (curve 0.8 0.3 1 5 5) = curve 0.8 0.3 1 5 5"
    using curve_example by (simp add: clamp_def)
  ultimately show ?thesis
    using curve_example by (simp add: spec_example_run)
qed

end
